theory Spec2Isabelle
  imports Complex_Main "HOL-Library.Word"
begin

unbundle bit_operations_syntax

section \<open>The transactional-execution controller of stmgcintf.c\<close>

text \<open>
  The development embeds \<^verbatim>\<open>rpython/translator/stm/src_stm/stmgcintf.c\<close>, built
  for a 64-bit target without \<^verbatim>\<open>HTM_INFO_AVAILABLE\<close> and with assertions
  enabled (\<^verbatim>\<open>NDEBUG\<close> undefined). The C types \<^verbatim>\<open>long\<close> and
  \<^verbatim>\<open>uintptr_t\<close> are 64-bit words; a \<^verbatim>\<open>long\<close> is read through
  \<open>sint\<close>, compared with \<open><s\<close> and shifted right with \<open>signed_drop_bit\<close>.
\<close>

type_synonym long = "64 word"
type_synonym uintptr_t = "64 word"

text \<open>The address of a \<^verbatim>\<open>stm_jmpbuf_t\<close>; \<open>None\<close> stands for \<^verbatim>\<open>NULL\<close>.\<close>

type_synonym jmpbuf = nat

subsection \<open>The STM engine as an external collaborator\<close>

text \<open>
  The engine (\<^verbatim>\<open>src_stm/stmgc.c\<close>) is not part of the file. Every call into it
  is recorded, in order, and its effect on the engine-owned variables that the controller
  reads is given by a parameter \<open>eng\<close> of the operations below. Engine calls are taken
  to return normally.
\<close>

datatype engine_call =
    StmSetup
  | RegisterThreadLocal
  | UnregisterThreadLocal
  | StartTransaction jmpbuf
  | CommitTransaction
  | BecomeInevitable string
  | BecomeGloballyUnique string

text \<open>
  What leaves the file, in order: calls into the engine and invocations of the
  caller-supplied callback of \<^verbatim>\<open>pypy_stm_perform_transaction\<close>, with the
  \<^verbatim>\<open>int\<close> counter it is given.
\<close>

datatype event = Engine engine_call | InvokeCallback "32 word"

record engine_seg =
  jmpbuf_ptr :: "jmpbuf option"             \<comment> \<open>\<^verbatim>\<open>STM_SEGMENT->jmpbuf_ptr\<close>\<close>
  stm_nursery_start :: uintptr_t             \<comment> \<open>\<^verbatim>\<open>_stm_nursery_start\<close>\<close>
  last_abort__bytes_in_nursery :: long       \<comment> \<open>\<^verbatim>\<open>stm_thread_local.last_abort__bytes_in_nursery\<close>\<close>

type_synonym engine = "engine_call \<Rightarrow> engine_seg \<Rightarrow> engine_seg"

subsection \<open>Thread-local state\<close>

record 'u thread_state =
  pypy_stm_ready_atomic :: long              \<comment> \<open>0 = not initialized; 1 = normal mode; 2 or more = atomic mode\<close>
  pypy_stm_nursery_low_fill_mark :: uintptr_t
  pypy_stm_nursery_low_fill_mark_saved :: uintptr_t
  pypy_transaction_length :: long
  segment :: engine_seg
  trace :: "event list"
  heap :: 'u                                 \<comment> \<open>the memory the unit of work operates on\<close>

text \<open>
  A failed \<^verbatim>\<open>assert\<close> ends the process. \<open>ResumedElsewhere\<close> is the other way an
  operation does not return to its caller: a transaction aborts while the engine's resume
  point belongs to another frame, and control continues there.
\<close>

datatype error = AssertionFailed string | ResumedElsewhere

definition call_engine :: "engine \<Rightarrow> engine_call \<Rightarrow> 'u thread_state \<Rightarrow> 'u thread_state" where
  "call_engine eng c s =
     s\<lparr>segment := eng c (segment s), trace := trace s @ [Engine c]\<rparr>"

text \<open>The sentinel \<^verbatim>\<open>(uintptr_t)-1\<close>.\<close>

abbreviation unlimited :: uintptr_t where
  "unlimited \<equiv> - 1"

subsection \<open>The commit-soon callback\<close>

definition stmcb_commit_soon :: "'u thread_state \<Rightarrow> 'u thread_state" where
  "stmcb_commit_soon s =
     (if pypy_stm_nursery_low_fill_mark s = unlimited then
        (if 0 <s pypy_stm_nursery_low_fill_mark_saved s
         then s\<lparr>pypy_stm_nursery_low_fill_mark_saved := 0\<rparr>
         else s)
      else if 0 <s pypy_stm_nursery_low_fill_mark s
        then s\<lparr>pypy_stm_nursery_low_fill_mark := 0\<rparr>
      else s)"

subsection \<open>The budget of a (re)started transaction\<close>

text \<open>The statement \<^verbatim>\<open>limit -= (limit >> 4)\<close> on a \<^verbatim>\<open>long\<close>.\<close>

definition shrink_limit :: "long \<Rightarrow> long" where
  "shrink_limit limit = limit - signed_drop_bit 4 limit"

definition budget_limit :: "long \<Rightarrow> 'u thread_state \<Rightarrow> long" where
  "budget_limit v_counter s =
     (let counter = v_counter in
      if counter = 0 then pypy_transaction_length s
      else shrink_limit (last_abort__bytes_in_nursery (segment s)))"

definition pypy_stm_initialize_nursery_low_fill_mark :: "long \<Rightarrow> 'u thread_state \<Rightarrow> 'u thread_state" where
  "pypy_stm_initialize_nursery_low_fill_mark v_counter s =
     s\<lparr>pypy_stm_nursery_low_fill_mark :=
         stm_nursery_start (segment s) + budget_limit v_counter s\<rparr>"

text \<open>
  \<^verbatim>\<open>pypy_stm_start_transaction\<close> returns the new thread state and the new value
  of \<^verbatim>\<open>*v_counter\<close>.
\<close>

definition pypy_stm_start_transaction ::
  "engine \<Rightarrow> jmpbuf \<Rightarrow> long \<Rightarrow> 'u thread_state \<Rightarrow> 'u thread_state \<times> long" where
  "pypy_stm_start_transaction eng jmpbuf_p v_counter s =
     (let s1 = s\<lparr>pypy_stm_nursery_low_fill_mark := 1\<rparr>;
          s2 = call_engine eng (StartTransaction jmpbuf_p) s1;
          s3 = pypy_stm_initialize_nursery_low_fill_mark v_counter s2;
          v_counter' = v_counter + 1
      in (s3\<lparr>pypy_stm_ready_atomic := 1\<rparr>, v_counter'))"

text \<open>The same step on the value a non-negative \<^verbatim>\<open>long\<close> stands for.\<close>

definition shrink_int :: "int \<Rightarrow> int" where
  "shrink_int n = n - n div 16"

subsection \<open>The configured transaction length\<close>

text \<open>
  \<^verbatim>\<open>pypy_stm_set_transaction_length\<close> multiplies two doubles and converts the
  product to \<^verbatim>\<open>long\<close>. The doubles are the reals they stand for; \<open>rnd\<close> is the
  rounding of the exact product to a double, a parameter, and the conversion truncates
  towards zero. A product outside the range of \<^verbatim>\<open>long\<close> has no defined
  conversion in C. For such a product the definition below is not the compiled code: it
  keeps the unbounded integer, clamps it like any other value, and reduces what it stores
  modulo \<open>2 ^ 64\<close>. Nothing below rests on that case.
  \<^verbatim>\<open>NURSERY_SIZE\<close> is defined by the engine and is a parameter too.
\<close>

definition LOW_FILL_MARK :: int where
  "LOW_FILL_MARK = 400000"

definition double_to_long :: "real \<Rightarrow> int" where
  "double_to_long x = (if 0 \<le> x then \<lfloor>x\<rfloor> else \<lceil>x\<rceil>)"

definition pypy_stm_set_transaction_length ::
  "(real \<Rightarrow> real) \<Rightarrow> nat \<Rightarrow> real \<Rightarrow> 'u thread_state \<Rightarrow> 'u thread_state" where
  "pypy_stm_set_transaction_length rnd NURSERY_SIZE fraction s =
     (let low_fill_mark = double_to_long (rnd (real_of_int LOW_FILL_MARK * fraction));
          low_fill_mark =
            (if low_fill_mark > int (NURSERY_SIZE * 3 div 4)
             then int (NURSERY_SIZE * 3 div 4) else low_fill_mark)
      in s\<lparr>pypy_transaction_length := word_of_int low_fill_mark\<rparr>)"

subsection \<open>Setup, teardown and the callback bridge\<close>

text \<open>
  Modelled from the spec: \<^verbatim>\<open>pypy_stm_register_thread_local\<close> and
  \<^verbatim>\<open>pypy_stm_unregister_thread_local\<close> are declared outside the file. Section 4.1
  of the specification: the record of a thread is created when the thread registers with
  the system and removed when it deregisters. Both are calls into the engine.
\<close>

definition pypy_stm_register_thread_local :: "engine \<Rightarrow> 'u thread_state \<Rightarrow> 'u thread_state" where
  "pypy_stm_register_thread_local eng s = call_engine eng RegisterThreadLocal s"

definition pypy_stm_unregister_thread_local :: "engine \<Rightarrow> 'u thread_state \<Rightarrow> 'u thread_state" where
  "pypy_stm_unregister_thread_local eng s = call_engine eng UnregisterThreadLocal s"

text \<open>
  \<^verbatim>\<open>pypy_stm_start_inevitable_if_not_atomic\<close> and
  \<^verbatim>\<open>pypy_stm_commit_if_not_atomic\<close> are declared outside the file too. They are
  parameters of the operations that call them. \<^verbatim>\<open>errno\<close> is not part of the state.
\<close>

definition pypy_stm_setup ::
  "engine \<Rightarrow> (real \<Rightarrow> real) \<Rightarrow> nat \<Rightarrow> ('u thread_state \<Rightarrow> error + 'u thread_state)
     \<Rightarrow> 'u thread_state \<Rightarrow> error + 'u thread_state" where
  "pypy_stm_setup eng rnd NURSERY_SIZE start_inevitable_if_not_atomic s =
     (let s1 = call_engine eng StmSetup s;
          s2 = pypy_stm_register_thread_local eng s1;
          s3 = s2\<lparr>pypy_stm_ready_atomic := 1\<rparr>;
          s4 = pypy_stm_set_transaction_length rnd NURSERY_SIZE (- 10000) s3
      in start_inevitable_if_not_atomic s4)"

definition pypy_stm_teardown :: "engine \<Rightarrow> 'u thread_state \<Rightarrow> 'u thread_state" where
  "pypy_stm_teardown eng s = pypy_stm_unregister_thread_local eng s"

text \<open>\<^verbatim>\<open>pypy_stm_enter_callback_call\<close> returns the new state and the token.\<close>

definition pypy_stm_enter_callback_call ::
  "engine \<Rightarrow> ('u thread_state \<Rightarrow> error + 'u thread_state) \<Rightarrow> 'u thread_state
     \<Rightarrow> error + ('u thread_state \<times> long)" where
  "pypy_stm_enter_callback_call eng start_inevitable_if_not_atomic s =
     (if pypy_stm_ready_atomic s = 0 then
        if \<not> 0 \<le>s pypy_transaction_length s then
          Inl (AssertionFailed ''pypy_transaction_length >= 0'')
        else
          let s1 = pypy_stm_register_thread_local eng s;
              s2 = s1\<lparr>pypy_stm_ready_atomic := 1\<rparr>
          in (case start_inevitable_if_not_atomic s2 of
                Inl e \<Rightarrow> Inl e
              | Inr s3 \<Rightarrow> Inr (s3, 1))
      else
        (case start_inevitable_if_not_atomic s of
           Inl e \<Rightarrow> Inl e
         | Inr s3 \<Rightarrow> Inr (s3, 0)))"

definition pypy_stm_leave_callback_call ::
  "engine \<Rightarrow> ('u thread_state \<Rightarrow> error + 'u thread_state) \<Rightarrow> long \<Rightarrow> 'u thread_state
     \<Rightarrow> error + 'u thread_state" where
  "pypy_stm_leave_callback_call eng commit_if_not_atomic token s =
     (if token = 1 then
        let s1 = s\<lparr>pypy_stm_ready_atomic := 1\<rparr>;
            s2 = call_engine eng CommitTransaction s1;
            s3 = s2\<lparr>pypy_stm_ready_atomic := 0\<rparr>
        in Inr (pypy_stm_unregister_thread_local eng s3)
      else commit_if_not_atomic s)"

subsection \<open>Escalation to inevitable\<close>

text \<open>The expression \<^verbatim>\<open>_stm_nursery_start + ((t - (long)_stm_nursery_start) >> 2)\<close>.\<close>

definition quarter_margin :: "uintptr_t \<Rightarrow> long \<Rightarrow> long" where
  "quarter_margin nursery_start t = nursery_start + signed_drop_bit 2 (t - nursery_start)"

definition pypy_stm_inev_state :: "'u thread_state \<Rightarrow> error + 'u thread_state" where
  "pypy_stm_inev_state s =
     (if pypy_stm_ready_atomic s = 1 then
        Inr (s\<lparr>pypy_stm_nursery_low_fill_mark :=
                 quarter_margin (stm_nursery_start (segment s))
                   (pypy_stm_nursery_low_fill_mark s)\<rparr>)
      else if pypy_stm_nursery_low_fill_mark s \<noteq> unlimited then
        Inl (AssertionFailed ''pypy_stm_nursery_low_fill_mark == (uintptr_t) -1'')
      else
        Inr (s\<lparr>pypy_stm_nursery_low_fill_mark_saved :=
                 quarter_margin (stm_nursery_start (segment s))
                   (pypy_stm_nursery_low_fill_mark_saved s)\<rparr>))"

definition inevitable_reason :: "string option \<Rightarrow> string" where
  "inevitable_reason msg =
     (case msg of None \<Rightarrow> ''return from JITted function'' | Some m \<Rightarrow> m)"

definition pypy_stm_become_inevitable ::
  "engine \<Rightarrow> string option \<Rightarrow> 'u thread_state \<Rightarrow> error + 'u thread_state" where
  "pypy_stm_become_inevitable eng msg s =
     (case pypy_stm_inev_state s of
        Inl e \<Rightarrow> Inl e
      | Inr s1 \<Rightarrow> Inr (call_engine eng (BecomeInevitable (inevitable_reason msg)) s1))"

definition pypy_stm_become_globally_unique_transaction ::
  "engine \<Rightarrow> 'u thread_state \<Rightarrow> error + 'u thread_state" where
  "pypy_stm_become_globally_unique_transaction eng s =
     (case (if jmpbuf_ptr (segment s) \<noteq> None then pypy_stm_inev_state s else Inr s) of
        Inl e \<Rightarrow> Inl e
      | Inr s1 \<Rightarrow> Inr (call_engine eng (BecomeGloballyUnique ''for the JIT'') s1))"

subsection \<open>The retry loop\<close>

text \<open>
  The callback of \<^verbatim>\<open>pypy_stm_perform_transaction\<close> receives the thread state and
  the attempt counter, converted to \<^verbatim>\<open>int\<close>. It returns an \<^verbatim>\<open>int\<close>, or the
  transaction aborts inside it: then it does not return, and control resumes at the
  engine's active resume point with the thread state the abort leaves behind.
\<close>

datatype outcome = Returned "32 word" | Aborted

type_synonym 'u callback = "32 word \<Rightarrow> 'u thread_state \<Rightarrow> outcome \<times> 'u thread_state"

datatype loop_pc = AtLoopTop | AtSetjmp

definition note_callback :: "32 word \<Rightarrow> 'u thread_state \<Rightarrow> 'u thread_state" where
  "note_callback counter s = s\<lparr>trace := trace s @ [InvokeCallback counter]\<rparr>"

text \<open>
  \<^verbatim>\<open>pypy_stm_should_break_transaction\<close> is declared outside the file and is a
  parameter, \<open>should_break\<close>. The loop is entered at its top; after an abort it is
  re-entered at the \<^verbatim>\<open>__builtin_setjmp\<close> of this frame, whose address is
  \<open>jmpbuf_p\<close>, with the volatile \<^verbatim>\<open>v_counter\<close> as the abort left it.
  \<open>enter_round\<close> is the part of one round before the callback: it yields the
  \<^verbatim>\<open>counter\<close> for the callback, the new \<^verbatim>\<open>v_counter\<close> and the new state.
  The bookkeeping of the shadow stack (\<^verbatim>\<open>STM_PUSH_ROOT\<close>, \<^verbatim>\<open>STM_POP_ROOT\<close>)
  is left out.
\<close>

definition enter_round ::
  "engine \<Rightarrow> ('u thread_state \<Rightarrow> bool) \<Rightarrow> jmpbuf \<Rightarrow> loop_pc \<Rightarrow> long \<Rightarrow> 'u thread_state
     \<Rightarrow> error + (long \<times> long \<times> 'u thread_state)" where
  "enter_round eng should_break jmpbuf_p pc v_counter s =
     (case pc of
        AtLoopTop \<Rightarrow>
          if should_break s then
            if pypy_stm_nursery_low_fill_mark s = unlimited then
              Inl (AssertionFailed ''pypy_stm_nursery_low_fill_mark != (uintptr_t) -1'')
            else
              let s1 = call_engine eng CommitTransaction s;
                  counter = v_counter;
                  (s2, v_counter') = pypy_stm_start_transaction eng jmpbuf_p v_counter s1
              in Inr (counter, v_counter', s2)
          else
            let counter = v_counter in Inr (counter, v_counter, s)
      | AtSetjmp \<Rightarrow>
          let counter = v_counter;
              (s2, v_counter') = pypy_stm_start_transaction eng jmpbuf_p v_counter s
          in Inr (counter, v_counter', s2))"

text \<open>
  The loop need not end: \<open>None\<close> is the run that never leaves it.
\<close>

partial_function (option) perform_loop ::
  "engine \<Rightarrow> ('u thread_state \<Rightarrow> bool) \<Rightarrow> 'u callback \<Rightarrow> jmpbuf \<Rightarrow> loop_pc \<Rightarrow> long
     \<Rightarrow> 'u thread_state \<Rightarrow> (error + 'u thread_state) option" where
  "perform_loop eng should_break callback jmpbuf_p pc v_counter s =
     (case enter_round eng should_break jmpbuf_p pc v_counter s of
        Inl e \<Rightarrow> Some (Inl e)
      | Inr (counter, v_counter', s1) \<Rightarrow>
          (case callback (ucast counter) (note_callback (ucast counter) s1) of
             (Returned r, s2) \<Rightarrow>
               let result = (scast r :: long) in
               if result \<le>s 0 then Some (Inr s2)
               else perform_loop eng should_break callback jmpbuf_p AtLoopTop 0 s2
           | (Aborted, s2) \<Rightarrow>
               if jmpbuf_ptr (segment s2) = Some jmpbuf_p
               then perform_loop eng should_break callback jmpbuf_p AtSetjmp v_counter' s2
               else Some (Inl ResumedElsewhere)))"

text \<open>The statements of \<^verbatim>\<open>pypy_stm_perform_transaction\<close> after the loop.\<close>

definition leave_loop :: "engine \<Rightarrow> jmpbuf \<Rightarrow> 'u thread_state \<Rightarrow> error + 'u thread_state" where
  "leave_loop eng jmpbuf_p s =
     (let s1 = (if jmpbuf_ptr (segment s) = Some jmpbuf_p
                then call_engine eng (BecomeInevitable ''perform_transaction left with inevitable'') s
                else s)
      in if pypy_stm_ready_atomic s1 = 1 then Inr s1
         else if pypy_stm_nursery_low_fill_mark s1 \<noteq> unlimited then
           Inl (AssertionFailed ''pypy_stm_nursery_low_fill_mark == (uintptr_t) -1'')
         else Inr s1)"

definition pypy_stm_perform_transaction ::
  "engine \<Rightarrow> ('u thread_state \<Rightarrow> bool) \<Rightarrow> 'u callback \<Rightarrow> jmpbuf \<Rightarrow> 'u thread_state
     \<Rightarrow> (error + 'u thread_state) option" where
  "pypy_stm_perform_transaction eng should_break callback jmpbuf_p s =
     (case perform_loop eng should_break callback jmpbuf_p AtLoopTop 0 s of
        None \<Rightarrow> None
      | Some (Inl e) \<Rightarrow> Some (Inl e)
      | Some (Inr s1) \<Rightarrow> Some (leave_loop eng jmpbuf_p s1))"

text \<open>
  The state the callback receives when the loop top begins a new transaction with
  \<^verbatim>\<open>v_counter\<close> 0: commit, start, and the invocation noted.
\<close>

definition begin_round :: "engine \<Rightarrow> jmpbuf \<Rightarrow> 'u thread_state \<Rightarrow> 'u thread_state" where
  "begin_round eng jmpbuf_p s =
     note_callback 0
       (fst (pypy_stm_start_transaction eng jmpbuf_p 0 (call_engine eng CommitTransaction s)))"

subsection \<open>Atomic sections\<close>

text \<open>
  Modelled from the spec: entering and leaving an atomic section
  (\<^verbatim>\<open>pypy_stm_increment_atomic\<close>, \<^verbatim>\<open>pypy_stm_decrement_atomic\<close>) are declared
  outside the file. Section 4.1 of the specification: \<^verbatim>\<open>enter_atomic()\<close> increments
  the depth and, on the 0 to 1 transition, saves the budget and sets it to Unlimited;
  \<^verbatim>\<open>leave_atomic()\<close> decrements the depth and, on the 1 to 0 transition, restores the
  budget from the saved one; \<^verbatim>\<open>leave_atomic()\<close> on depth 0 is a contract violation.
  The depth is the mode counter minus 1.
\<close>

definition enter_atomic :: "'u thread_state \<Rightarrow> 'u thread_state" where
  "enter_atomic s =
     (let s1 = s\<lparr>pypy_stm_ready_atomic := pypy_stm_ready_atomic s + 1\<rparr>
      in if pypy_stm_ready_atomic s = 1
         then s1\<lparr>pypy_stm_nursery_low_fill_mark_saved := pypy_stm_nursery_low_fill_mark s,
                 pypy_stm_nursery_low_fill_mark := unlimited\<rparr>
         else s1)"

definition leave_atomic :: "'u thread_state \<Rightarrow> error + 'u thread_state" where
  "leave_atomic s =
     (if \<not> 1 <s pypy_stm_ready_atomic s then
        Inl (AssertionFailed ''leave_atomic on depth 0'')
      else
        let s1 = s\<lparr>pypy_stm_ready_atomic := pypy_stm_ready_atomic s - 1\<rparr>
        in if pypy_stm_ready_atomic s = 2
           then Inr (s1\<lparr>pypy_stm_nursery_low_fill_mark := pypy_stm_nursery_low_fill_mark_saved s\<rparr>)
           else Inr s1)"

subsection \<open>Mode and budget\<close>

text \<open>
  The condition of the two assertions
  \<^verbatim>\<open>assert(pypy_stm_nursery_low_fill_mark == (uintptr_t) -1)\<close>, which stand in the
  branches where \<^verbatim>\<open>pypy_stm_ready_atomic\<close> is not 1.
\<close>

definition mode_budget_inv :: "'u thread_state \<Rightarrow> bool" where
  "mode_budget_inv s \<longleftrightarrow>
     (pypy_stm_ready_atomic s \<noteq> 1 \<longrightarrow> pypy_stm_nursery_low_fill_mark s = unlimited)"

text \<open>
  What a registered thread does between its registration and its deregistration: the
  operations of the file, atomic sections, calls into the engine, changes of the
  engine-owned variables and of the heap, and the retry loop with a callback that is such
  a run itself. \<open>controller_run eng s t\<close>: the thread gets from \<open>s\<close> to \<open>t\<close>.
\<close>

inductive controller_run :: "engine \<Rightarrow> 'u thread_state \<Rightarrow> 'u thread_state \<Rightarrow> bool"
  for eng :: engine where
    run_none: "controller_run eng s s"
  | run_commit_soon:
      "controller_run eng s t \<Longrightarrow> controller_run eng s (stmcb_commit_soon t)"
  | run_set_transaction_length:
      "controller_run eng s t \<Longrightarrow>
       controller_run eng s (pypy_stm_set_transaction_length rnd nursery_size fraction t)"
  | run_start_transaction:
      "controller_run eng s t \<Longrightarrow>
       controller_run eng s (fst (pypy_stm_start_transaction eng jmpbuf_p v_counter t))"
  | run_inev_state:
      "controller_run eng s t \<Longrightarrow> pypy_stm_inev_state t = Inr t' \<Longrightarrow> controller_run eng s t'"
  | run_become_inevitable:
      "controller_run eng s t \<Longrightarrow> pypy_stm_become_inevitable eng msg t = Inr t' \<Longrightarrow>
       controller_run eng s t'"
  | run_become_globally_unique:
      "controller_run eng s t \<Longrightarrow>
       pypy_stm_become_globally_unique_transaction eng t = Inr t' \<Longrightarrow>
       controller_run eng s t'"
  | run_enter_atomic:
      "controller_run eng s t \<Longrightarrow> controller_run eng s (enter_atomic t)"
  | run_leave_atomic:
      "controller_run eng s t \<Longrightarrow> leave_atomic t = Inr t' \<Longrightarrow> controller_run eng s t'"
  | run_engine:
      "controller_run eng s t \<Longrightarrow> controller_run eng s (call_engine eng c t)"
  | run_segment:
      "controller_run eng s t \<Longrightarrow> controller_run eng s (t\<lparr>segment := g\<rparr>)"
  | run_heap:
      "controller_run eng s t \<Longrightarrow> controller_run eng s (t\<lparr>heap := h\<rparr>)"
  | run_perform_loop:
      "controller_run eng s t \<Longrightarrow>
       (\<forall>counter x. controller_run eng x (snd (callback counter x))) \<Longrightarrow>
       perform_loop eng should_break callback jmpbuf_p AtLoopTop 0 t = Some (Inr t') \<Longrightarrow>
       controller_run eng s t'"

subsection \<open>Example states and an example engine\<close>

text \<open>
  Concrete inputs on which the properties below are evaluated. The example engine binds
  the resume point when a transaction starts and clears it when the transaction becomes
  inevitable; it leaves the nursery start and the abort statistics alone.
\<close>

definition example_engine :: engine where
  "example_engine c g =
     (case c of
        StartTransaction jb \<Rightarrow> g\<lparr>jmpbuf_ptr := Some jb\<rparr>
      | BecomeInevitable m \<Rightarrow> g\<lparr>jmpbuf_ptr := None\<rparr>
      | BecomeGloballyUnique m \<Rightarrow> g\<lparr>jmpbuf_ptr := None\<rparr>
      | _ \<Rightarrow> g)"

definition normal_thread :: "nat thread_state" where
  "normal_thread =
     \<lparr>pypy_stm_ready_atomic = 1,
      pypy_stm_nursery_low_fill_mark = 0x10000 + 400000,
      pypy_stm_nursery_low_fill_mark_saved = 0,
      pypy_transaction_length = 400000,
      segment = \<lparr>jmpbuf_ptr = None, stm_nursery_start = 0x10000,
                 last_abort__bytes_in_nursery = 1600\<rparr>,
      trace = [],
      heap = 0\<rparr>"

definition atomic_thread :: "nat thread_state" where
  "atomic_thread =
     normal_thread\<lparr>pypy_stm_ready_atomic := 2,
                   pypy_stm_nursery_low_fill_mark := unlimited,
                   pypy_stm_nursery_low_fill_mark_saved := 0x10000 + 400000\<rparr>"

text \<open>
  Three callbacks: one asks for two more rounds and then stops, one stops at once, one
  aborts in its first invocation and stops in its second.
\<close>

definition twice_then_stop :: "nat callback" where
  "twice_then_stop counter s =
     (Returned (if heap s < 2 then 1 else 0), s\<lparr>heap := heap s + 1\<rparr>)"

definition stop_at_once :: "nat callback" where
  "stop_at_once counter s = (Returned 0, s\<lparr>heap := heap s + 1\<rparr>)"

definition abort_once :: "nat callback" where
  "abort_once counter s =
     (if heap s = 0 then Aborted else Returned 0, s\<lparr>heap := heap s + 1\<rparr>)"

text \<open>An event that begins a transaction.\<close>

definition starts_transaction :: "event \<Rightarrow> bool" where
  "starts_transaction e = (case e of Engine (StartTransaction jb) \<Rightarrow> True | _ \<Rightarrow> False)"

text \<open>An event that asks the engine to become inevitable.\<close>

definition asks_inevitable :: "event \<Rightarrow> bool" where
  "asks_inevitable e = (case e of Engine (BecomeInevitable m) \<Rightarrow> True | _ \<Rightarrow> False)"

section \<open>Properties\<close>

lemma call_engine_fields [simp]:
  "pypy_stm_ready_atomic (call_engine eng c s) = pypy_stm_ready_atomic s"
  "pypy_stm_nursery_low_fill_mark (call_engine eng c s) = pypy_stm_nursery_low_fill_mark s"
  "pypy_stm_nursery_low_fill_mark_saved (call_engine eng c s) = pypy_stm_nursery_low_fill_mark_saved s"
  "pypy_transaction_length (call_engine eng c s) = pypy_transaction_length s"
  "heap (call_engine eng c s) = heap s"
  "segment (call_engine eng c s) = eng c (segment s)"
  "trace (call_engine eng c s) = trace s @ [Engine c]"
  by (simp_all add: call_engine_def)

text \<open>
  C4. The commit-soon callback: in budgeted mode (fill mark not the sentinel) with a
  positive fill mark, read as a \<^verbatim>\<open>long\<close>, the fill mark is forced to 0 and
  nothing else changes; in atomic mode (fill mark equal to the sentinel) the saved fill
  mark is cleared when it is positive, and the active fill mark stays at the sentinel.
\<close>

theorem stmcb_commit_soon_spec:
  "(pypy_stm_nursery_low_fill_mark s \<noteq> unlimited \<and> 0 <s pypy_stm_nursery_low_fill_mark s \<longrightarrow>
      stmcb_commit_soon s = s\<lparr>pypy_stm_nursery_low_fill_mark := 0\<rparr>) \<and>
   (pypy_stm_nursery_low_fill_mark s = unlimited \<longrightarrow>
      pypy_stm_nursery_low_fill_mark (stmcb_commit_soon s) = unlimited \<and>
      pypy_stm_nursery_low_fill_mark_saved (stmcb_commit_soon s) =
        (if 0 <s pypy_stm_nursery_low_fill_mark_saved s then 0
         else pypy_stm_nursery_low_fill_mark_saved s)) \<and>
   pypy_stm_ready_atomic (stmcb_commit_soon s) = pypy_stm_ready_atomic s \<and>
   trace (stmcb_commit_soon s) = trace s"
  by (simp add: stmcb_commit_soon_def)

theorem stmcb_commit_soon_spec_witness:
  "stmcb_commit_soon normal_thread = normal_thread\<lparr>pypy_stm_nursery_low_fill_mark := 0\<rparr> \<and>
   pypy_stm_nursery_low_fill_mark (stmcb_commit_soon atomic_thread) = unlimited \<and>
   pypy_stm_nursery_low_fill_mark_saved (stmcb_commit_soon atomic_thread) = 0"
  using stmcb_commit_soon_spec [of normal_thread] stmcb_commit_soon_spec [of atomic_thread]
  by (simp add: normal_thread_def atomic_thread_def word_sless_alt)

text \<open>
  C1. The budget of a freshly (re)started transaction: with attempt counter 0 the limit
  is the configured transaction length; with a positive attempt counter it is
  \<^verbatim>\<open>last_abort__bytes_in_nursery\<close> minus its arithmetic right shift by 4. The
  nursery low fill mark becomes the nursery start plus that limit, and nothing else
  changes. \<^verbatim>\<open>pypy_stm_start_transaction\<close> stores that budget, computed after the
  engine has started the transaction, and increments the attempt counter.
\<close>

theorem initialize_nursery_low_fill_mark_budget:
  "(v_counter = 0 \<longrightarrow>
      pypy_stm_initialize_nursery_low_fill_mark v_counter s =
        s\<lparr>pypy_stm_nursery_low_fill_mark :=
            stm_nursery_start (segment s) + pypy_transaction_length s\<rparr>) \<and>
   (0 <s v_counter \<longrightarrow>
      pypy_stm_initialize_nursery_low_fill_mark v_counter s =
        s\<lparr>pypy_stm_nursery_low_fill_mark :=
            stm_nursery_start (segment s) +
              (last_abort__bytes_in_nursery (segment s)
                 - signed_drop_bit 4 (last_abort__bytes_in_nursery (segment s)))\<rparr>) \<and>
   pypy_stm_nursery_low_fill_mark (fst (pypy_stm_start_transaction eng jb v_counter s)) =
     stm_nursery_start (eng (StartTransaction jb) (segment s)) +
       budget_limit v_counter (call_engine eng (StartTransaction jb) s) \<and>
   snd (pypy_stm_start_transaction eng jb v_counter s) = v_counter + 1"
  by (auto simp add: pypy_stm_initialize_nursery_low_fill_mark_def budget_limit_def
      shrink_limit_def pypy_stm_start_transaction_def Let_def call_engine_def)

theorem initialize_nursery_low_fill_mark_budget_witness:
  "pypy_stm_nursery_low_fill_mark (pypy_stm_initialize_nursery_low_fill_mark 0 normal_thread) = 0x10000 + 400000 \<and>
   pypy_stm_nursery_low_fill_mark (pypy_stm_initialize_nursery_low_fill_mark 1 normal_thread) = 0x10000 + 1500"
  using initialize_nursery_low_fill_mark_budget [of 0 normal_thread]
    initialize_nursery_low_fill_mark_budget [of 1 normal_thread]
  by (simp add: normal_thread_def word_sless_alt)

text \<open>
  C5. Escalation to inevitable, on a thread state that passes the assertion of
  \<^verbatim>\<open>_pypy_stm_inev_state\<close>: the margin of the budget above the nursery start is
  shifted right by 2, in the active fill mark when the mode counter is 1 and in the
  saved fill mark otherwise, and the engine is asked to become inevitable on the state
  so obtained, with the given reason (the default reason when the message is
  \<^verbatim>\<open>NULL\<close>).
\<close>

theorem become_inevitable_shrinks_then_asks:
  assumes "pypy_stm_ready_atomic s = 1 \<or> pypy_stm_nursery_low_fill_mark s = unlimited"
  shows "\<exists>s1. pypy_stm_inev_state s = Inr s1 \<and>
     (pypy_stm_ready_atomic s = 1 \<longrightarrow>
        s1 = s\<lparr>pypy_stm_nursery_low_fill_mark :=
                 stm_nursery_start (segment s) +
                   signed_drop_bit 2 (pypy_stm_nursery_low_fill_mark s - stm_nursery_start (segment s))\<rparr>) \<and>
     (pypy_stm_ready_atomic s \<noteq> 1 \<longrightarrow>
        s1 = s\<lparr>pypy_stm_nursery_low_fill_mark_saved :=
                 stm_nursery_start (segment s) +
                   signed_drop_bit 2 (pypy_stm_nursery_low_fill_mark_saved s - stm_nursery_start (segment s))\<rparr>) \<and>
     pypy_stm_become_inevitable eng msg s =
       Inr (call_engine eng
             (BecomeInevitable (case msg of None \<Rightarrow> ''return from JITted function'' | Some m \<Rightarrow> m)) s1)"
  using assms
  by (auto simp add: pypy_stm_inev_state_def pypy_stm_become_inevitable_def quarter_margin_def
      inevitable_reason_def)

theorem become_inevitable_shrinks_then_asks_witness:
  "pypy_stm_become_inevitable example_engine (Some ''foreign call'') normal_thread =
     Inr (normal_thread\<lparr>pypy_stm_nursery_low_fill_mark := 0x10000 + 100000,
            trace := [Engine (BecomeInevitable ''foreign call'')]\<rparr>) \<and>
   pypy_stm_become_inevitable example_engine None atomic_thread =
     Inr (atomic_thread\<lparr>pypy_stm_nursery_low_fill_mark_saved := 0x10000 + 100000,
            trace := [Engine (BecomeInevitable ''return from JITted function'')]\<rparr>)"
  using become_inevitable_shrinks_then_asks [of normal_thread example_engine "Some ''foreign call''"]
    become_inevitable_shrinks_then_asks [of atomic_thread example_engine None]
  by (auto simp add: normal_thread_def atomic_thread_def call_engine_def example_engine_def)

lemma sint_shrink_limit:
  fixes x :: long
  assumes "0 \<le> sint x"
  shows "sint (shrink_limit x) = sint x - sint x div 16"
proof -
  have d: "sint (signed_drop_bit 4 x) = sint x div 16"
    by (simp add: sint_signed_drop_bit_eq drop_bit_eq_div)
  have ub: "sint x < 2 ^ 63"
    using sint_lt [of x] by simp
  have r: "0 \<le> sint x - sint x div 16" "sint x - sint x div 16 < 2 ^ 63"
    using assms ub by linarith+
  have "sint (x - signed_drop_bit 4 x) = signed_take_bit 63 (sint x - sint x div 16)"
    by (simp add: sint_word_ariths d)
  also have "\<dots> = sint x - sint x div 16"
    using r by (intro signed_take_bit_int_eq_self) simp_all
  finally show ?thesis by (simp add: shrink_limit_def)
qed

lemma shrink_int_facts:
  assumes "0 \<le> n"
  shows "0 \<le> shrink_int n" "shrink_int n \<le> n" "shrink_int n < n \<longleftrightarrow> 16 \<le> n"
    "0 < n \<Longrightarrow> 0 < shrink_int n"
  using assms unfolding shrink_int_def by linarith+

lemma shrink_int_mono: "0 \<le> a \<Longrightarrow> a \<le> b \<Longrightarrow> shrink_int a \<le> shrink_int b"
  unfolding shrink_int_def by linarith

lemma shrink_int_pow_nonneg: "0 \<le> n \<Longrightarrow> 0 \<le> (shrink_int ^^ k) n"
  by (induction k) (simp_all add: shrink_int_facts)

lemma shrink_int_pow_mono:
  "0 \<le> a \<Longrightarrow> a \<le> b \<Longrightarrow> (shrink_int ^^ k) a \<le> (shrink_int ^^ k) b"
  by (induction k) (simp_all add: shrink_int_mono shrink_int_pow_nonneg)

lemma shrink_int_pow_antitone:
  "0 \<le> n \<Longrightarrow> (shrink_int ^^ (k + j)) n \<le> (shrink_int ^^ k) n"
proof (induction j)
  case 0
  then show ?case by simp
next
  case (Suc j)
  have "0 \<le> (shrink_int ^^ (k + j)) n"
    using Suc.prems by (rule shrink_int_pow_nonneg)
  then have "shrink_int ((shrink_int ^^ (k + j)) n) \<le> (shrink_int ^^ (k + j)) n"
    by (rule shrink_int_facts)
  with Suc show ?case by simp
qed

lemma shrink_int_49: "(shrink_int ^^ 49) 216 = 16"
  by (simp add: eval_nat_numeral shrink_int_def)

lemma shrink_int_pow_ge_16:
  assumes "216 \<le> n" "k < 50"
  shows "16 \<le> (shrink_int ^^ k) n"
proof -
  from assms(2) obtain j where j: "49 = k + j"
    by (metis Suc_eq_plus1 less_Suc_eq_le less_eqE eval_nat_numeral(3) numeral_plus_one semiring_norm(5,8))
  have "16 = (shrink_int ^^ (k + j)) 216"
    using shrink_int_49 j by simp
  also have "\<dots> \<le> (shrink_int ^^ k) 216"
    by (rule shrink_int_pow_antitone) simp
  also have "\<dots> \<le> (shrink_int ^^ k) n"
    using assms(1) by (intro shrink_int_pow_mono) simp_all
  finally show ?thesis .
qed

lemma sint_shrink_limit_pow:
  fixes x :: long
  assumes "0 \<le> sint x"
  shows "sint ((shrink_limit ^^ k) x) = (shrink_int ^^ k) (sint x)"
proof (induction k)
  case 0
  show ?case by simp
next
  case (Suc k)
  have "0 \<le> sint ((shrink_limit ^^ k) x)"
    using Suc assms by (simp add: shrink_int_pow_nonneg)
  then show ?case
    using Suc by (simp add: sint_shrink_limit shrink_int_def)
qed

text \<open>
  C2. For a non-negative limit the retry step \<^verbatim>\<open>limit -= (limit >> 4)\<close> never
  increases the limit and keeps it non-negative; it decreases the limit strictly exactly
  when the limit is at least 16, and a positive limit stays positive. From a starting
  value of at least 216 the limit decreases strictly, and stays positive, at each of 50
  consecutive steps.
\<close>

theorem shrink_limit_iterates:
  fixes x :: long
  assumes "0 \<le> sint x"
  shows "0 \<le> sint (shrink_limit x) \<and> sint (shrink_limit x) \<le> sint x \<and>
    (sint (shrink_limit x) < sint x \<longleftrightarrow> 16 \<le> sint x) \<and>
    (0 < sint x \<longrightarrow> 0 < sint (shrink_limit x)) \<and>
    (216 \<le> sint x \<longrightarrow>
       (\<forall>k<50. sint ((shrink_limit ^^ Suc k) x) < sint ((shrink_limit ^^ k) x) \<and>
                0 < sint ((shrink_limit ^^ Suc k) x)))"
proof -
  have s: "sint (shrink_limit x) = shrink_int (sint x)"
    using assms by (simp add: sint_shrink_limit shrink_int_def)
  have "sint ((shrink_limit ^^ Suc k) x) < sint ((shrink_limit ^^ k) x) \<and>
        0 < sint ((shrink_limit ^^ Suc k) x)" if "216 \<le> sint x" "k < 50" for k
  proof -
    have ge: "16 \<le> (shrink_int ^^ k) (sint x)"
      using that by (rule shrink_int_pow_ge_16)
    then have "shrink_int ((shrink_int ^^ k) (sint x)) < (shrink_int ^^ k) (sint x)"
      "0 < shrink_int ((shrink_int ^^ k) (sint x))"
      using shrink_int_facts(3,4) [of "(shrink_int ^^ k) (sint x)"] by simp_all
    moreover have "sint ((shrink_limit ^^ Suc k) x) = (shrink_int ^^ Suc k) (sint x)"
      "sint ((shrink_limit ^^ k) x) = (shrink_int ^^ k) (sint x)"
      using assms by (rule sint_shrink_limit_pow)+
    ultimately show ?thesis
      by simp
  qed
  then show ?thesis
    using assms shrink_int_facts [of "sint x"] by (simp add: s)
qed

theorem shrink_limit_iterates_witness:
  "sint ((shrink_limit ^^ Suc 49) (216 :: long)) < sint ((shrink_limit ^^ 49) (216 :: long)) \<and>
   0 < sint ((shrink_limit ^^ Suc 49) (216 :: long))"
proof -
  have "0 \<le> sint (216 :: long)" by simp
  from shrink_limit_iterates [OF this]
  have "\<forall>k<50. sint ((shrink_limit ^^ Suc k) (216 :: long)) < sint ((shrink_limit ^^ k) 216) \<and>
                0 < sint ((shrink_limit ^^ Suc k) (216 :: long))"
    by simp
  then show ?thesis
    by (elim allE [of _ 49]) simp
qed

theorem shrink_limit_small_counterexample:
  "0 \<le> sint (15 :: long) \<and> \<not> sint (shrink_limit 15) < sint (15 :: long) \<and>
   sint (shrink_limit 0) = 0"
  by (simp add: shrink_limit_def)

lemma rounded_product_range:
  assumes "mono rnd" "rnd 0 = 0" "rnd 400000 = 400000" "0 \<le> fraction" "fraction \<le> 1"
  shows "0 \<le> double_to_long (rnd (real_of_int LOW_FILL_MARK * fraction))"
    "double_to_long (rnd (real_of_int LOW_FILL_MARK * fraction)) \<le> 400000"
    "0 \<le> rnd (real_of_int LOW_FILL_MARK * fraction)"
proof -
  let ?p = "real_of_int LOW_FILL_MARK * fraction"
  have p: "0 \<le> ?p" "?p \<le> 400000"
    using assms(4,5) by (simp_all add: LOW_FILL_MARK_def)
  have "rnd 0 \<le> rnd ?p" "rnd ?p \<le> rnd 400000"
    using assms(1) p by (auto dest: monoD)
  then have r: "0 \<le> rnd ?p" "rnd ?p \<le> 400000"
    using assms(2,3) by simp_all
  from r show "0 \<le> rnd ?p"
    by simp
  from r show "0 \<le> double_to_long (rnd ?p)"
    by (simp add: double_to_long_def)
  from r have "\<lfloor>rnd ?p\<rfloor> \<le> 400000"
    by (simp add: floor_le_iff)
  with r show "double_to_long (rnd ?p) \<le> 400000"
    by (simp add: double_to_long_def)
qed

text \<open>
  C3. For every fraction in [0, 1] the configured transaction length is at least 0 and
  at most 3/4 of \<^verbatim>\<open>NURSERY_SIZE\<close>: it is the rounded product of the fraction and
  \<^verbatim>\<open>LOW_FILL_MARK\<close>, truncated, and clamped above at \<^verbatim>\<open>NURSERY_SIZE * 3 / 4\<close>.
  The rounding is any monotone one that is exact at 0 and at 400000, and
  \<^verbatim>\<open>NURSERY_SIZE * 3\<close> fits a \<^verbatim>\<open>long\<close>.
\<close>

theorem set_transaction_length_bounds:
  assumes "mono rnd" "rnd 0 = 0" "rnd 400000 = 400000"
    and "0 \<le> fraction" "fraction \<le> 1"
    and "NURSERY_SIZE * 3 < 2 ^ 63"
  shows "0 \<le> sint (pypy_transaction_length
                     (pypy_stm_set_transaction_length rnd NURSERY_SIZE fraction s)) \<and>
         real_of_int (sint (pypy_transaction_length
                     (pypy_stm_set_transaction_length rnd NURSERY_SIZE fraction s)))
           \<le> 3 / 4 * real NURSERY_SIZE \<and>
         sint (pypy_transaction_length
                     (pypy_stm_set_transaction_length rnd NURSERY_SIZE fraction s))
           = min \<lfloor>rnd (400000 * fraction)\<rfloor> (int (NURSERY_SIZE * 3 div 4))"
proof -
  let ?raw = "double_to_long (rnd (real_of_int LOW_FILL_MARK * fraction))"
  let ?cap = "int (NURSERY_SIZE * 3 div 4)"
  let ?v = "if ?raw > ?cap then ?cap else ?raw"
  have raw: "0 \<le> ?raw" "?raw \<le> 400000"
    using assms(1-5) by (rule rounded_product_range(1), rule rounded_product_range(2))
  have cap: "0 \<le> ?cap" "?cap < 2 ^ 63"
    using assms(6) by simp_all
  have v: "0 \<le> ?v" "?v \<le> ?cap" "?v < 2 ^ 63"
    using raw cap by auto
  have "signed_take_bit 63 ?v = ?v"
    using v by (intro signed_take_bit_int_eq_self) simp_all
  then have s: "sint (word_of_int ?v :: long) = ?v"
    by (simp add: sint_sbintrunc')
  have len: "sint (pypy_transaction_length
                     (pypy_stm_set_transaction_length rnd NURSERY_SIZE fraction s)) = ?v"
    using s by (simp add: pypy_stm_set_transaction_length_def Let_def)
  have "real_of_int ?cap \<le> 3 / 4 * real NURSERY_SIZE"
  proof -
    have "4 * (NURSERY_SIZE * 3 div 4) \<le> NURSERY_SIZE * 3"
      by simp
    then have "4 * real (NURSERY_SIZE * 3 div 4) \<le> real (NURSERY_SIZE * 3)"
      by (metis of_nat_le_iff of_nat_mult of_nat_numeral)
    then show ?thesis by simp
  qed
  moreover have "real_of_int ?v \<le> real_of_int ?cap"
    using v(2) by linarith
  moreover have "?raw = \<lfloor>rnd (400000 * fraction)\<rfloor>"
  proof -
    have "0 \<le> rnd (real_of_int LOW_FILL_MARK * fraction)"
      using assms(1-5) by (rule rounded_product_range)
    then show ?thesis
      by (simp add: double_to_long_def LOW_FILL_MARK_def)
  qed
  ultimately show ?thesis
    unfolding len using v(1) by (simp add: min_def)
qed

theorem set_transaction_length_bounds_witness:
  "sint (pypy_transaction_length
          (pypy_stm_set_transaction_length (\<lambda>x. x) 4194304 (1 / 2) normal_thread)) = 200000"
  using set_transaction_length_bounds [of "\<lambda>x. x" "1 / 2" 4194304 normal_thread]
  by (simp add: mono_def)

text \<open>
  C9. \<^verbatim>\<open>pypy_stm_leave_callback_call\<close> with token 1 commits the transaction
  whatever the atomic status is, then unregisters the thread, and leaves the mode counter
  at 0, the value of a thread that is not initialized. The engine is asked to commit and
  then to unregister, and nothing else: it is not asked to become inevitable.
\<close>

theorem leave_callback_call_token_1:
  "pypy_stm_leave_callback_call eng commit_if_not_atomic 1 s =
     Inr (s\<lparr>pypy_stm_ready_atomic := 0,
             segment := eng UnregisterThreadLocal (eng CommitTransaction (segment s)),
             trace := trace s @ [Engine CommitTransaction, Engine UnregisterThreadLocal]\<rparr>) \<and>
   \<not> list_ex asks_inevitable [Engine CommitTransaction, Engine UnregisterThreadLocal]"
  by (simp add: pypy_stm_leave_callback_call_def pypy_stm_unregister_thread_local_def
      call_engine_def asks_inevitable_def)

theorem leave_callback_call_no_inevitable_counterexample:
  "pypy_stm_leave_callback_call example_engine Inr 1 atomic_thread =
     Inr (atomic_thread\<lparr>pypy_stm_ready_atomic := 0,
            trace := [Engine CommitTransaction, Engine UnregisterThreadLocal]\<rparr>) \<and>
   \<not> list_ex asks_inevitable [Engine CommitTransaction, Engine UnregisterThreadLocal]"
  by (simp add: pypy_stm_leave_callback_call_def pypy_stm_unregister_thread_local_def
      call_engine_def example_engine_def atomic_thread_def normal_thread_def
      asks_inevitable_def)

lemma note_callback_fields [simp]:
  "pypy_stm_ready_atomic (note_callback c s) = pypy_stm_ready_atomic s"
  "pypy_stm_nursery_low_fill_mark (note_callback c s) = pypy_stm_nursery_low_fill_mark s"
  "pypy_stm_nursery_low_fill_mark_saved (note_callback c s) = pypy_stm_nursery_low_fill_mark_saved s"
  "pypy_transaction_length (note_callback c s) = pypy_transaction_length s"
  "heap (note_callback c s) = heap s"
  "segment (note_callback c s) = segment s"
  "trace (note_callback c s) = trace s @ [InvokeCallback c]"
  by (simp_all add: note_callback_def)

lemma start_transaction_mode [simp]:
  "pypy_stm_ready_atomic (fst (pypy_stm_start_transaction eng jb v s)) = 1"
  by (simp add: pypy_stm_start_transaction_def Let_def)

lemma start_transaction_mode_eq:
  "pypy_stm_start_transaction eng jb v s = (s1, v') \<Longrightarrow> pypy_stm_ready_atomic s1 = 1"
  by (auto simp add: pypy_stm_start_transaction_def Let_def)

lemma enter_round_inv:
  assumes "enter_round eng sb jb pc v s = Inr (counter, v', s1)"
    and "pc = AtLoopTop \<longrightarrow> mode_budget_inv s"
  shows "mode_budget_inv s1"
proof (cases pc)
  case AtLoopTop
  show ?thesis
  proof (cases "sb s")
    case True
    with AtLoopTop assms(1) obtain w where
      "pypy_stm_start_transaction eng jb v (call_engine eng CommitTransaction s) = (s1, w)"
      by (auto simp add: enter_round_def Let_def split: if_splits prod.splits)
    then show ?thesis
      by (simp add: mode_budget_inv_def start_transaction_mode_eq)
  next
    case False
    with AtLoopTop assms show ?thesis
      by (simp add: enter_round_def)
  qed
next
  case AtSetjmp
  with assms(1) obtain w where "pypy_stm_start_transaction eng jb v s = (s1, w)"
    by (auto simp add: enter_round_def Let_def split: prod.splits)
  then show ?thesis
    by (simp add: mode_budget_inv_def start_transaction_mode_eq)
qed

lemma perform_loop_step:
  assumes "enter_round eng sb jb pc v s = Inr (counter, v', s1)"
    and "cb (ucast counter) (note_callback (ucast counter) s1) = (Returned r, s2)"
  shows "sint r \<le> 0 \<Longrightarrow> perform_loop eng sb cb jb pc v s = Some (Inr s2)"
    and "0 < sint r \<Longrightarrow>
         perform_loop eng sb cb jb pc v s = perform_loop eng sb cb jb AtLoopTop 0 s2"
proof -
  have unfold: "perform_loop eng sb cb jb pc v s =
      (if (scast r :: long) \<le>s 0 then Some (Inr s2)
       else perform_loop eng sb cb jb AtLoopTop 0 s2)"
    by (subst perform_loop.simps) (simp add: assms)
  have "sint (scast r :: long) = sint r"
    by (rule sint_up_scast) (simp add: is_up)
  then have "(scast r :: long) \<le>s 0 \<longleftrightarrow> sint r \<le> 0"
    by (simp add: word_sle_eq)
  with unfold show "sint r \<le> 0 \<Longrightarrow> perform_loop eng sb cb jb pc v s = Some (Inr s2)"
    and "0 < sint r \<Longrightarrow>
         perform_loop eng sb cb jb pc v s = perform_loop eng sb cb jb AtLoopTop 0 s2"
    by simp_all
qed

lemma enter_round_begin:
  assumes "sb s" "pypy_stm_nursery_low_fill_mark s \<noteq> unlimited"
  shows "\<exists>v' s1. enter_round eng sb jb AtLoopTop 0 s = Inr (0, v', s1) \<and>
           note_callback 0 s1 = begin_round eng jb s"
  using assms
  by (simp add: enter_round_def begin_round_def Let_def split: prod.splits)

lemma perform_loop_begin:
  assumes "sb s" "pypy_stm_nursery_low_fill_mark s \<noteq> unlimited"
    and "cb 0 (begin_round eng jb s) = (Returned r, s2)"
  shows "sint r \<le> 0 \<Longrightarrow> perform_loop eng sb cb jb AtLoopTop 0 s = Some (Inr s2)"
    and "0 < sint r \<Longrightarrow>
         perform_loop eng sb cb jb AtLoopTop 0 s = perform_loop eng sb cb jb AtLoopTop 0 s2"
proof -
  obtain v' s1 where e: "enter_round eng sb jb AtLoopTop 0 s = Inr (0, v', s1)"
    and n: "note_callback 0 s1 = begin_round eng jb s"
    using enter_round_begin [of sb s eng jb] assms(1,2) by blast
  have c: "cb (ucast (0 :: long)) (note_callback (ucast (0 :: long)) s1) = (Returned r, s2)"
    using assms(3) n by simp
  show "sint r \<le> 0 \<Longrightarrow> perform_loop eng sb cb jb AtLoopTop 0 s = Some (Inr s2)"
    using perform_loop_step(1) [of eng sb jb AtLoopTop 0 s 0 v' s1 cb r s2] e c by simp
  show "0 < sint r \<Longrightarrow>
         perform_loop eng sb cb jb AtLoopTop 0 s = perform_loop eng sb cb jb AtLoopTop 0 s2"
    using perform_loop_step(2) [of eng sb jb AtLoopTop 0 s 0 v' s1 cb r s2] e c by simp
qed

lemma begin_round_trace:
  "trace (begin_round eng jb s) =
     trace s @ [Engine CommitTransaction, Engine (StartTransaction jb), InvokeCallback 0]"
  by (simp add: begin_round_def pypy_stm_start_transaction_def Let_def
      pypy_stm_initialize_nursery_low_fill_mark_def)

text \<open>
  C6. In the retry loop, for every callback: when the callback returns a result that is
  at most 0 the loop exits with the state the callback left, and when it returns a
  positive result the loop goes on from its top with \<^verbatim>\<open>v_counter\<close> reset to 0. In
  particular, when \<^verbatim>\<open>pypy_stm_should_break_transaction\<close> answers true at the top
  of each round, the fill mark is not the unlimited sentinel there, and the callback
  returns 1, 1 and then 0, the loop ends after exactly three rounds of commit, start and
  callback, and the callback is given counter 0 in each; when the callback leaves the
  trace alone, these nine events are all that is added to it. That the thread is never
  atomic is not enough: where the break check answers false, the round begins no
  transaction.
\<close>

theorem perform_loop_rounds:
  "(enter_round eng sb jb pc v s = Inr (counter, v', x) \<and>
    cb (ucast counter) (note_callback (ucast counter) x) = (Returned r, y) \<longrightarrow>
      (sint r \<le> 0 \<longrightarrow> perform_loop eng sb cb jb pc v s = Some (Inr y)) \<and>
      (0 < sint r \<longrightarrow>
         perform_loop eng sb cb jb pc v s = perform_loop eng sb cb jb AtLoopTop 0 y)) \<and>
   (sb s0 \<and> pypy_stm_nursery_low_fill_mark s0 \<noteq> unlimited \<and>
    cb 0 (begin_round eng jb s0) = (Returned 1, s1) \<and>
    sb s1 \<and> pypy_stm_nursery_low_fill_mark s1 \<noteq> unlimited \<and>
    cb 0 (begin_round eng jb s1) = (Returned 1, s2) \<and>
    sb s2 \<and> pypy_stm_nursery_low_fill_mark s2 \<noteq> unlimited \<and>
    cb 0 (begin_round eng jb s2) = (Returned 0, s3) \<longrightarrow>
      perform_loop eng sb cb jb AtLoopTop 0 s0 = Some (Inr s3) \<and>
      (trace s1 = trace (begin_round eng jb s0) \<and>
       trace s2 = trace (begin_round eng jb s1) \<and>
       trace s3 = trace (begin_round eng jb s2) \<longrightarrow>
         trace s3 = trace s0 @
           [Engine CommitTransaction, Engine (StartTransaction jb), InvokeCallback 0,
            Engine CommitTransaction, Engine (StartTransaction jb), InvokeCallback 0,
            Engine CommitTransaction, Engine (StartTransaction jb), InvokeCallback 0]))"
proof (intro conjI impI; (elim conjE)?)
  assume e: "enter_round eng sb jb pc v s = Inr (counter, v', x)"
    and c: "cb (ucast counter) (note_callback (ucast counter) x) = (Returned r, y)"
  show "sint r \<le> 0 \<Longrightarrow> perform_loop eng sb cb jb pc v s = Some (Inr y)"
    using perform_loop_step(1) [of eng sb jb pc v s counter v' x cb r y] e c by simp
  show "0 < sint r \<Longrightarrow>
      perform_loop eng sb cb jb pc v s = perform_loop eng sb cb jb AtLoopTop 0 y"
    using perform_loop_step(2) [of eng sb jb pc v s counter v' x cb r y] e c by simp
next
  assume a: "sb s0" "pypy_stm_nursery_low_fill_mark s0 \<noteq> unlimited"
    "cb 0 (begin_round eng jb s0) = (Returned 1, s1)"
    "sb s1" "pypy_stm_nursery_low_fill_mark s1 \<noteq> unlimited"
    "cb 0 (begin_round eng jb s1) = (Returned 1, s2)"
    "sb s2" "pypy_stm_nursery_low_fill_mark s2 \<noteq> unlimited"
    "cb 0 (begin_round eng jb s2) = (Returned 0, s3)"
  have "perform_loop eng sb cb jb AtLoopTop 0 s0 = perform_loop eng sb cb jb AtLoopTop 0 s1"
    using perform_loop_begin(2) [of sb s0 cb eng jb 1 s1] a(1,2,3) by simp
  also have "\<dots> = perform_loop eng sb cb jb AtLoopTop 0 s2"
    using perform_loop_begin(2) [of sb s1 cb eng jb 1 s2] a(4,5,6) by simp
  also have "\<dots> = Some (Inr s3)"
    using perform_loop_begin(1) [of sb s2 cb eng jb 0 s3] a(7,8,9) by simp
  finally show "perform_loop eng sb cb jb AtLoopTop 0 s0 = Some (Inr s3)" .
next
  assume "trace s1 = trace (begin_round eng jb s0)"
    "trace s2 = trace (begin_round eng jb s1)"
    "trace s3 = trace (begin_round eng jb s2)"
  then show "trace s3 = trace s0 @
           [Engine CommitTransaction, Engine (StartTransaction jb), InvokeCallback 0,
            Engine CommitTransaction, Engine (StartTransaction jb), InvokeCallback 0,
            Engine CommitTransaction, Engine (StartTransaction jb), InvokeCallback 0]"
    by (simp add: begin_round_trace)
qed


lemmas example_defs =
  enter_round_def pypy_stm_start_transaction_def call_engine_def example_engine_def
  note_callback_def pypy_stm_initialize_nursery_low_fill_mark_def budget_limit_def
  twice_then_stop_def normal_thread_def begin_round_def Let_def

theorem perform_loop_rounds_witness:
  "perform_loop example_engine (\<lambda>s. pypy_stm_ready_atomic s = 1) twice_then_stop 7 AtLoopTop 0
     normal_thread =
     Some (Inr (normal_thread\<lparr>heap := 3,
       segment := \<lparr>jmpbuf_ptr = Some 7, stm_nursery_start = 0x10000,
                    last_abort__bytes_in_nursery = 1600\<rparr>,
       trace := [Engine CommitTransaction, Engine (StartTransaction 7), InvokeCallback 0,
                 Engine CommitTransaction, Engine (StartTransaction 7), InvokeCallback 0,
                 Engine CommitTransaction, Engine (StartTransaction 7), InvokeCallback 0]\<rparr>))"
proof -
  let ?e = example_engine and ?sb = "\<lambda>s :: nat thread_state. pypy_stm_ready_atomic s = 1"
  let ?s1 = "snd (twice_then_stop 0 (begin_round ?e 7 normal_thread))"
  let ?s2 = "snd (twice_then_stop 0 (begin_round ?e 7 ?s1))"
  let ?s3 = "snd (twice_then_stop 0 (begin_round ?e 7 ?s2))"
  show ?thesis
    using perform_loop_rounds [where eng = ?e and sb = ?sb and jb = 7 and cb = twice_then_stop
        and s0 = normal_thread and ?s1.0 = ?s1 and ?s2.0 = ?s2 and ?s3.0 = ?s3
        and pc = AtSetjmp and v = 0 and s = ?s2 and counter = 0 and v' = 1
        and x = "fst (pypy_stm_start_transaction ?e 7 0 ?s2)" and r = 0
        and y = "snd (twice_then_stop 0 (note_callback 0 (fst (pypy_stm_start_transaction ?e 7 0 ?s2))))"]
    by (simp add: example_defs)
qed

theorem perform_loop_no_break_counterexample:
  "perform_loop example_engine (\<lambda>s. False) twice_then_stop 7 AtLoopTop 0 normal_thread =
     Some (Inr (normal_thread\<lparr>heap := 3,
       trace := [InvokeCallback 0, InvokeCallback 0, InvokeCallback 0]\<rparr>)) \<and>
   pypy_stm_ready_atomic normal_thread = 1 \<and>
   filter starts_transaction [InvokeCallback 0, InvokeCallback 0, InvokeCallback 0] = []"
  by (simp add: perform_loop.simps enter_round_def note_callback_def twice_then_stop_def
      normal_thread_def Let_def word_sle_eq starts_transaction_def)

text \<open>
  A retry: the callback aborts in its first invocation and returns 0 in the second. The
  loop resumes at the checkpoint of this frame, starts the transaction again without a
  commit, hands the callback counter 1, and the budget is the nursery start plus
  1600 - (1600 >> 4).
\<close>

lemma retry_after_abort_example:
  "perform_loop example_engine (\<lambda>s. pypy_stm_ready_atomic s = 1) abort_once 7 AtLoopTop 0
     normal_thread =
     Some (Inr (normal_thread\<lparr>heap := 2,
       pypy_stm_nursery_low_fill_mark := 0x10000 + 1500,
       segment := \<lparr>jmpbuf_ptr = Some 7, stm_nursery_start = 0x10000,
                    last_abort__bytes_in_nursery = 1600\<rparr>,
       trace := [Engine CommitTransaction, Engine (StartTransaction 7), InvokeCallback 0,
                 Engine (StartTransaction 7), InvokeCallback 1]\<rparr>))"
  by (simp add: perform_loop.simps enter_round_def pypy_stm_start_transaction_def
      call_engine_def example_engine_def note_callback_def
      pypy_stm_initialize_nursery_low_fill_mark_def budget_limit_def shrink_limit_def
      abort_once_def normal_thread_def Let_def word_sle_eq)

text \<open>
  C7. When the loop is left and the engine's resume point is still the
  \<^verbatim>\<open>jmpbuf\<close> of this frame, \<^verbatim>\<open>pypy_stm_perform_transaction\<close> asks the engine
  to make the transaction inevitable, with the reason
  \<^verbatim>\<open>"perform_transaction left with inevitable"\<close>, and does not commit it; otherwise it
  asks the engine nothing. With an engine that clears the resume point of a transaction
  it makes inevitable, the function never returns with the resume point in its own frame.
\<close>

theorem perform_transaction_exit_escalates:
  assumes "perform_loop eng sb cb jb AtLoopTop 0 s = Some (Inr s1)"
  shows "(jmpbuf_ptr (segment s1) = Some jb \<and>
          (pypy_stm_ready_atomic s1 = 1 \<or> pypy_stm_nursery_low_fill_mark s1 = unlimited) \<longrightarrow>
            pypy_stm_perform_transaction eng sb cb jb s =
              Some (Inr (call_engine eng
                (BecomeInevitable ''perform_transaction left with inevitable'') s1))) \<and>
         (jmpbuf_ptr (segment s1) \<noteq> Some jb \<and>
          (pypy_stm_ready_atomic s1 = 1 \<or> pypy_stm_nursery_low_fill_mark s1 = unlimited) \<longrightarrow>
            pypy_stm_perform_transaction eng sb cb jb s = Some (Inr s1)) \<and>
         (\<forall>s'. (\<forall>m g. jmpbuf_ptr (eng (BecomeInevitable m) g) = None) \<and>
               pypy_stm_perform_transaction eng sb cb jb s = Some (Inr s') \<longrightarrow>
               jmpbuf_ptr (segment s') \<noteq> Some jb)"
  using assms
  by (auto simp add: pypy_stm_perform_transaction_def leave_loop_def Let_def
      split: if_splits)

theorem perform_transaction_exit_escalates_witness:
  "pypy_stm_perform_transaction example_engine (\<lambda>s. True) stop_at_once 7 normal_thread =
     Some (Inr (normal_thread\<lparr>heap := 1,
       trace := [Engine CommitTransaction, Engine (StartTransaction 7), InvokeCallback 0,
                 Engine (BecomeInevitable ''perform_transaction left with inevitable'')]\<rparr>))"
proof -
  have h: "perform_loop example_engine (\<lambda>s. True) stop_at_once 7 AtLoopTop 0 normal_thread =
     Some (Inr (normal_thread\<lparr>heap := 1,
       segment := \<lparr>jmpbuf_ptr = Some 7, stm_nursery_start = 0x10000,
                    last_abort__bytes_in_nursery = 1600\<rparr>,
       trace := [Engine CommitTransaction, Engine (StartTransaction 7), InvokeCallback 0]\<rparr>))"
    by (subst perform_loop.simps) (simp add: example_defs stop_at_once_def word_sle_eq)
  show ?thesis
    using perform_transaction_exit_escalates [OF h]
    by (simp add: normal_thread_def call_engine_def example_engine_def)
qed

theorem perform_transaction_reason_counterexample:
  "pypy_stm_perform_transaction example_engine (\<lambda>s. True) stop_at_once 7 normal_thread =
     Some (Inr (normal_thread\<lparr>heap := 1,
       trace := [Engine CommitTransaction, Engine (StartTransaction 7), InvokeCallback 0,
                 Engine (BecomeInevitable ''perform_transaction left with inevitable'')]\<rparr>)) \<and>
   Engine (BecomeInevitable ''perform_transaction exiting'') \<notin>
     set [Engine CommitTransaction, Engine (StartTransaction 7), InvokeCallback 0,
          Engine (BecomeInevitable ''perform_transaction left with inevitable'')]"
  by (simp add: pypy_stm_perform_transaction_def perform_loop.simps example_defs
      stop_at_once_def leave_loop_def word_sle_eq)

lemma perform_loop_inv:
  assumes "perform_loop eng sb cb jb pc v s = Some r"
  shows "(\<forall>c x. mode_budget_inv x \<longrightarrow> mode_budget_inv (snd (cb c x))) \<longrightarrow>
         (pc = AtLoopTop \<longrightarrow> mode_budget_inv s) \<longrightarrow>
         (\<forall>s'. r = Inr s' \<longrightarrow> mode_budget_inv s')"
  using assms
proof (rule perform_loop.raw_induct
    [where P = "\<lambda>eng sb cb jb pc v s r.
      (\<forall>c x. mode_budget_inv x \<longrightarrow> mode_budget_inv (snd (cb c x))) \<longrightarrow>
      (pc = AtLoopTop \<longrightarrow> mode_budget_inv s) \<longrightarrow>
      (\<forall>s'. r = Inr s' \<longrightarrow> mode_budget_inv s')", rotated])
  fix loop :: "engine \<Rightarrow> ('a thread_state \<Rightarrow> bool) \<Rightarrow> 'a callback \<Rightarrow> jmpbuf \<Rightarrow> loop_pc \<Rightarrow> long
     \<Rightarrow> 'a thread_state \<Rightarrow> (error + 'a thread_state) option"
  fix eng sb cb jb pc v s r
  assume IH: "\<And>eng sb cb jb pc v s r. loop eng sb cb jb pc v s = Some r \<Longrightarrow>
      (\<forall>c x. mode_budget_inv x \<longrightarrow> mode_budget_inv (snd (cb c x))) \<longrightarrow>
      (pc = AtLoopTop \<longrightarrow> mode_budget_inv s) \<longrightarrow>
      (\<forall>s'. r = Inr s' \<longrightarrow> mode_budget_inv s')"
  assume body: "(case enter_round eng sb jb pc v s of
        Inl e \<Rightarrow> Some (Inl e)
      | Inr (counter, v_counter', s1) \<Rightarrow>
          (case cb (ucast counter) (note_callback (ucast counter) s1) of
             (Returned r, s2) \<Rightarrow>
               let result = (scast r :: long) in
               if result \<le>s 0 then Some (Inr s2)
               else loop eng sb cb jb AtLoopTop 0 s2
           | (Aborted, s2) \<Rightarrow>
               if jmpbuf_ptr (segment s2) = Some jb
               then loop eng sb cb jb AtSetjmp v_counter' s2
               else Some (Inl ResumedElsewhere))) = Some r"
  show "(\<forall>c x. mode_budget_inv x \<longrightarrow> mode_budget_inv (snd (cb c x))) \<longrightarrow>
      (pc = AtLoopTop \<longrightarrow> mode_budget_inv s) \<longrightarrow>
      (\<forall>s'. r = Inr s' \<longrightarrow> mode_budget_inv s')"
  proof (intro impI allI)
    fix s'
    assume cb: "\<forall>c x. mode_budget_inv x \<longrightarrow> mode_budget_inv (snd (cb c x))"
      and top: "pc = AtLoopTop \<longrightarrow> mode_budget_inv s" and r: "r = Inr s'"
    from body r obtain counter w s1 where
      e: "enter_round eng sb jb pc v s = Inr (counter, w, s1)"
      by (cases "enter_round eng sb jb pc v s") auto
    have "mode_budget_inv s1"
      using e top by (rule enter_round_inv)
    then have n: "mode_budget_inv (note_callback (ucast counter) s1)"
      by (simp add: mode_budget_inv_def)
    obtain out s2 where c: "cb (ucast counter) (note_callback (ucast counter) s1) = (out, s2)"
      by (cases "cb (ucast counter) (note_callback (ucast counter) s1)")
    have s2: "mode_budget_inv s2"
      using cb n c by (metis snd_conv)
    show "mode_budget_inv s'"
    proof (cases out)
      case (Returned res)
      show ?thesis
      proof (cases "(scast res :: long) \<le>s 0")
        case True
        with body e c Returned r s2 show ?thesis by simp
      next
        case False
        with body e c Returned have "loop eng sb cb jb AtLoopTop 0 s2 = Some r" by simp
        from IH [OF this] cb s2 r show ?thesis by simp
      qed
    next
      case Aborted
      with body e c r have "loop eng sb cb jb AtSetjmp w s2 = Some r"
        by (simp split: if_splits)
      from IH [OF this] cb r show ?thesis by simp
    qed
  qed
qed

lemma inev_state_inv:
  "mode_budget_inv s \<Longrightarrow> pypy_stm_inev_state s = Inr t \<Longrightarrow> mode_budget_inv t"
  by (auto simp add: pypy_stm_inev_state_def mode_budget_inv_def split: if_splits)

text \<open>
  C10. Wherever a run of the controller takes a thread from a state in which a mode
  counter other than 1 goes with a fill mark at the unlimited sentinel, the same holds:
  the assertion of \<^verbatim>\<open>_pypy_stm_inev_state\<close> passes there, and so does the one at
  the exit of \<^verbatim>\<open>pypy_stm_perform_transaction\<close>. The states in which the retry loop
  is left are among those a run reaches.
\<close>

theorem mode_budget_invariant:
  assumes "controller_run eng s s'" and "mode_budget_inv s"
  shows "mode_budget_inv s' \<and>
         (pypy_stm_ready_atomic s' \<noteq> 1 \<longrightarrow> pypy_stm_nursery_low_fill_mark s' = unlimited) \<and>
         (pypy_stm_nursery_low_fill_mark s' \<noteq> unlimited \<longrightarrow> pypy_stm_ready_atomic s' = 1) \<and>
         (\<exists>t. pypy_stm_inev_state s' = Inr t) \<and>
         (\<forall>jb. \<exists>t. leave_loop eng jb s' = Inr t)"
proof -
  from assms have inv: "mode_budget_inv s'"
  proof (induction rule: controller_run.induct)
    case (run_none s)
    then show ?case by simp
  next
    case (run_commit_soon s t)
    then show ?case
      by (auto simp add: mode_budget_inv_def stmcb_commit_soon_def)
  next
    case (run_set_transaction_length s t rnd nursery_size fraction)
    then show ?case
      by (simp add: mode_budget_inv_def pypy_stm_set_transaction_length_def Let_def)
  next
    case (run_start_transaction s t jmpbuf_p v_counter)
    then show ?case
      by (simp add: mode_budget_inv_def)
  next
    case (run_inev_state s t t')
    then show ?case
      by (simp add: inev_state_inv)
  next
    case (run_become_inevitable s t msg t')
    then show ?case
      by (auto simp add: pypy_stm_become_inevitable_def mode_budget_inv_def
          dest!: inev_state_inv [unfolded mode_budget_inv_def, rotated] split: sum.splits)
  next
    case (run_become_globally_unique s t t')
    then show ?case
      by (auto simp add: pypy_stm_become_globally_unique_transaction_def mode_budget_inv_def
          dest!: inev_state_inv [unfolded mode_budget_inv_def, rotated]
          split: sum.splits if_splits)
  next
    case (run_enter_atomic s t)
    then show ?case
      by (auto simp add: mode_budget_inv_def enter_atomic_def Let_def)
  next
    case (run_leave_atomic s t t')
    then show ?case
      by (auto simp add: mode_budget_inv_def leave_atomic_def Let_def split: if_splits)
  next
    case (run_engine s t c)
    then show ?case by (simp add: mode_budget_inv_def)
  next
    case (run_segment s t g)
    then show ?case by (simp add: mode_budget_inv_def)
  next
    case (run_heap s t h)
    then show ?case by (simp add: mode_budget_inv_def)
  next
    case (run_perform_loop s t callback should_break jmpbuf_p t')
    from run_perform_loop.IH(1) run_perform_loop.prems have "mode_budget_inv t" by simp
    moreover have "\<forall>c x. mode_budget_inv x \<longrightarrow> mode_budget_inv (snd (callback c x))"
      using run_perform_loop.IH(2) by simp
    ultimately show ?case
      using perform_loop_inv [OF run_perform_loop.hyps(2)] by blast
  qed
  have "\<exists>t. pypy_stm_inev_state s' = Inr t"
    using inv by (simp add: mode_budget_inv_def pypy_stm_inev_state_def)
  moreover have "\<exists>t. leave_loop eng jb s' = Inr t" for jb
    using inv by (simp add: mode_budget_inv_def leave_loop_def)
  moreover have "pypy_stm_ready_atomic s' \<noteq> 1 \<longrightarrow> pypy_stm_nursery_low_fill_mark s' = unlimited"
    using inv by (simp add: mode_budget_inv_def)
  ultimately show ?thesis
    using inv by blast
qed


theorem mode_budget_invariant_witness:
  "mode_budget_inv (enter_atomic (stmcb_commit_soon normal_thread)) \<and>
   pypy_stm_ready_atomic (enter_atomic (stmcb_commit_soon normal_thread)) = 2 \<and>
   pypy_stm_nursery_low_fill_mark (enter_atomic (stmcb_commit_soon normal_thread)) = unlimited"
proof -
  have run: "controller_run example_engine normal_thread
      (enter_atomic (stmcb_commit_soon normal_thread))"
    by (intro controller_run.run_enter_atomic controller_run.run_commit_soon
        controller_run.run_none)
  have start: "mode_budget_inv normal_thread"
    by (simp add: mode_budget_inv_def normal_thread_def)
  show ?thesis
    using mode_budget_invariant [OF run start]
    by (simp add: enter_atomic_def stmcb_commit_soon_def normal_thread_def word_sless_alt)
qed

end
